theory Spec2Isabelle
  imports Main "HOL-Library.Sublist"
begin

unbundle bit_operations_syntax

section \<open>The Go runtime, as far as validator.go looks at it\<close>

text \<open>
  \<^verbatim>\<open>validator.go\<close> reads a struct through package \<^verbatim>\<open>reflect\<close>. A field of the
  struct type has a name, a type (of which only \<^verbatim>\<open>Kind()\<close> is read) and a tag; a
  \<^verbatim>\<open>reflect.Value\<close> has a type (of which only \<^verbatim>\<open>Name()\<close> is read) and contents read
  with \<^verbatim>\<open>String()\<close> and \<^verbatim>\<open>Int()\<close>. A panic of the runtime is the \<open>Inl\<close> branch of
  a sum, a normal return the \<open>Inr\<close> branch.
\<close>

datatype kind = Invalid | Bool | IntKind | Int8 | Int16 | Int32 | Int64
  | Uint | Uint8 | Uint16 | Uint32 | Uint64 | Uintptr | Float32 | Float64
  | Complex64 | Complex128 | Array | Chan | Func | Interface | Map | Pointer
  | Slice | String | Struct | UnsafePointer

text \<open>
  A type, by what \<^verbatim>\<open>Type.Name()\<close> and \<^verbatim>\<open>Type.String()\<close> return for it: \<^verbatim>\<open>"string"\<close>
  and \<^verbatim>\<open>"string"\<close> for the predeclared string type, \<^verbatim>\<open>"Country"\<close> and
  \<^verbatim>\<open>"main.Country"\<close> for \<^verbatim>\<open>type Country string\<close> of package main, the empty name
  for an unnamed type such as \<^verbatim>\<open>[]int\<close>.
\<close>

record rtype =
  TypeName :: string
  TypeString :: string

text \<open>
  A \<^verbatim>\<open>reflect.Value\<close>: the zero Value (what \<^verbatim>\<open>reflect.ValueOf(nil)\<close> returns), a
  value of kind String, of a signed integer kind (Int .. Int64; \<^verbatim>\<open>Int()\<close> returns
  its contents as an int64), of an unsigned integer kind (Uint .. Uintptr), or of any
  other kind. Integers are compared and never computed with, so an int64 is an
  \<open>int\<close> here.
\<close>

datatype rvalue =
    ZeroValue
  | StringValue rtype string
  | IntValue rtype int
  | UintValue rtype nat
  | OtherValue rtype

datatype panic =
    TypeOfZeroValue
  | IntOfNonInt
  | ElemOfNonPointer
  | NumFieldOfNonStruct
  | MustCompile string

definition Value_Type_Name :: "rvalue \<Rightarrow> panic + string" where
  "Value_Type_Name v =
     (case v of
        ZeroValue \<Rightarrow> Inl TypeOfZeroValue
      | StringValue t s \<Rightarrow> Inr (TypeName t)
      | IntValue t i \<Rightarrow> Inr (TypeName t)
      | UintValue t n \<Rightarrow> Inr (TypeName t)
      | OtherValue t \<Rightarrow> Inr (TypeName t))"

text \<open>
  \<^verbatim>\<open>Value.String()\<close> does not panic on a value that is no string: it returns
  \<^verbatim>\<open>"<T Value>"\<close> for the type T.
\<close>

definition Value_String :: "rvalue \<Rightarrow> string" where
  "Value_String v =
     (case v of
        ZeroValue \<Rightarrow> ''<invalid Value>''
      | StringValue t s \<Rightarrow> s
      | IntValue t i \<Rightarrow> ''<'' @ TypeString t @ '' Value>''
      | UintValue t n \<Rightarrow> ''<'' @ TypeString t @ '' Value>''
      | OtherValue t \<Rightarrow> ''<'' @ TypeString t @ '' Value>'')"

text \<open>\<^verbatim>\<open>Value.Int()\<close> panics unless the kind is Int, Int8, Int16, Int32 or Int64.\<close>

definition Value_Int :: "rvalue \<Rightarrow> panic + int" where
  "Value_Int v = (case v of IntValue t i \<Rightarrow> Inr i | _ \<Rightarrow> Inl IntOfNonInt)"

subsection \<open>Package strings and strconv\<close>

text \<open>\<^verbatim>\<open>strings.SplitN(tag, " ", -1)\<close>: every piece between single spaces, empty ones too.\<close>

fun SplitN_space :: "string \<Rightarrow> string list" where
  "SplitN_space [] = [[]]"
| "SplitN_space (c # cs) =
     (if c = CHR '' '' then [] # SplitN_space cs
      else (case SplitN_space cs of [] \<Rightarrow> [[c]] | t # ts \<Rightarrow> (c # t) # ts))"

text \<open>\<^verbatim>\<open>strings.Replace(s, old, new, 1)\<close>: the first occurrence of \<open>old\<close> replaced.\<close>

fun Replace_first :: "string \<Rightarrow> string \<Rightarrow> string \<Rightarrow> string" where
  "Replace_first [] old new = (if old = [] then new else [])"
| "Replace_first (c # cs) old new =
     (if prefix old (c # cs) then new @ drop (length old) (c # cs)
      else c # Replace_first cs old new)"

definition digit :: "char \<Rightarrow> nat option" where
  "digit c =
     (if (of_char CHR ''0'' :: nat) \<le> of_char c \<and> (of_char c :: nat) \<le> of_char CHR ''9''
      then Some (of_char c - of_char CHR ''0'') else None)"

fun digits :: "string \<Rightarrow> nat \<Rightarrow> nat option" where
  "digits [] acc = Some acc"
| "digits (c # cs) acc =
     (case digit c of None \<Rightarrow> None | Some d \<Rightarrow> digits cs (10 * acc + d))"

text \<open>
  \<^verbatim>\<open>strconv.Atoi\<close> on a 64-bit platform: an optional sign, then one or more decimal
  digits, and the number must fit an int64; anything else is an error (\<open>None\<close>).
\<close>

definition Atoi :: "string \<Rightarrow> int option" where
  "Atoi s =
     (let neg = (s \<noteq> [] \<and> hd s = CHR ''-'');
          ds = (if s \<noteq> [] \<and> (hd s = CHR ''-'' \<or> hd s = CHR ''+'') then tl s else s)
      in if ds = [] then None
         else (case digits ds 0 of
                 None \<Rightarrow> None
               | Some n \<Rightarrow>
                   if neg then (if n \<le> 2 ^ 63 then Some (- int n) else None)
                   else (if n < 2 ^ 63 then Some (int n) else None)))"

subsection \<open>Package regexp\<close>

text \<open>
  A compiled \<^verbatim>\<open>*regexp.Regexp\<close> is a syntax tree over bytes: the empty match, a
  character class (a list of inclusive ranges), concatenation, alternation, repetition
  and the two text anchors \<^verbatim>\<open>^\<close> and \<^verbatim>\<open>$\<close>. Compiling a pattern string is the
  library's work and is a parameter \<open>compile\<close> of the functions below; \<open>None\<close> is a
  pattern that \<^verbatim>\<open>regexp.MustCompile\<close> panics on.
\<close>

datatype regex =
    EmptyMatch
  | CharClass "(char \<times> char) list"
  | Concat regex regex
  | Alternate regex regex
  | Star regex
  | BeginText
  | EndText

type_synonym compiler = "string \<Rightarrow> regex option"

text \<open>A place in the text: whether it is the beginning of the text, and what is left.\<close>

type_synonym place = "bool \<times> string"

definition in_class :: "(char \<times> char) list \<Rightarrow> char \<Rightarrow> bool" where
  "in_class rs c =
     list_ex (\<lambda>r. (of_char (fst r) :: nat) \<le> of_char c \<and> (of_char c :: nat) \<le> of_char (snd r)) rs"

primrec star_close :: "(place \<Rightarrow> place list) \<Rightarrow> nat \<Rightarrow> place list \<Rightarrow> place list" where
  "star_close f 0 ps = ps"
| "star_close f (Suc n) ps = star_close f n (remdups (ps @ concat (map f ps)))"

text \<open>\<open>ends r p\<close>: the places where a match of \<open>r\<close> that begins at place \<open>p\<close> can end.\<close>

primrec ends :: "regex \<Rightarrow> place \<Rightarrow> place list" where
  "ends EmptyMatch p = [p]"
| "ends (CharClass rs) p =
     (case snd p of [] \<Rightarrow> [] | c # cs \<Rightarrow> if in_class rs c then [(False, cs)] else [])"
| "ends (Concat a b) p = remdups (concat (map (ends b) (ends a p)))"
| "ends (Alternate a b) p = remdups (ends a p @ ends b p)"
| "ends (Star a) p = star_close (ends a) (Suc (length (snd p))) [p]"
| "ends BeginText p = (if fst p then [p] else [])"
| "ends EndText p = (if snd p = [] then [p] else [])"

fun search :: "regex \<Rightarrow> bool \<Rightarrow> string \<Rightarrow> bool" where
  "search r b [] = (ends r (b, []) \<noteq> [])"
| "search r b (c # cs) = (ends r (b, c # cs) \<noteq> [] \<or> search r False cs)"

text \<open>
  \<^verbatim>\<open>(*Regexp).MatchString(s)\<close> reports whether \<open>s\<close> contains any match of the
  pattern: the match may begin and end anywhere in \<open>s\<close>.
\<close>

definition MatchString :: "regex \<Rightarrow> string \<Rightarrow> bool" where
  "MatchString r s = search r True s"

section \<open>validator.go\<close>

record FieldValidation =
  lenMin :: int
  lenMax :: int
  valMin :: int
  valMax :: int
  regexp :: "regex option"
  flags :: int

text \<open>Values used with \<open>flags\<close>.\<close>

definition ValMinNotNil :: int where "ValMinNotNil = 2"
definition ValMaxNotNil :: int where "ValMaxNotNil = 4"
definition Required :: int where "Required = 8"
definition Email :: int where "Email = 16"

text \<open>Values for invalid field flags.\<close>

definition FailLenMin :: int where "FailLenMin = 2"
definition FailLenMax :: int where "FailLenMax = 4"
definition FailValMin :: int where "FailValMin = 8"
definition FailValMax :: int where "FailValMax = 16"
definition FailEmpty :: int where "FailEmpty = 32"
definition FailRegexp :: int where "FailRegexp = 64"
definition FailEmail :: int where "FailEmail = 128"
definition FailZero :: int where "FailZero = 256"

record ValidationOptions =
  RestrictFields :: "string \<rightharpoonup> bool"
  OverwriteFieldTags :: "string \<rightharpoonup> (string \<rightharpoonup> string)"
  OverwriteTagName :: string
  ValidateWhenSuffix :: bool
  OverwriteFieldValues :: "string \<rightharpoonup> rvalue"

record StructField =
  Name :: string
  Kind :: kind
  Tag :: "string \<rightharpoonup> string"
  FieldValue :: rvalue

text \<open>
  The first argument of \<open>Validate\<close>: a struct passed by value, a pointer to a struct, \<^verbatim>\<open>nil\<close>
  or a nil pointer, or anything else (a value that is no struct). Each field
  carries the value it holds in the record.
\<close>

datatype obj =
    StructValue "StructField list"
  | StructPointer "StructField list"
  | NilObj
  | NonStruct

text \<open>
  Indexing a Go map gives the zero value of the element type for an absent key;
  \<^verbatim>\<open>StructTag.Get\<close> gives the empty string for an absent key.
\<close>

definition index_bool :: "(string \<rightharpoonup> bool) \<Rightarrow> string \<Rightarrow> bool" where
  "index_bool m k = (case m k of None \<Rightarrow> False | Some b \<Rightarrow> b)"

definition index_string :: "(string \<rightharpoonup> string) \<Rightarrow> string \<Rightarrow> string" where
  "index_string m k = (case m k of None \<Rightarrow> [] | Some s \<Rightarrow> s)"

definition index_map :: "(string \<rightharpoonup> (string \<rightharpoonup> string)) \<Rightarrow> string \<Rightarrow> (string \<rightharpoonup> string)" where
  "index_map m k = (case m k of None \<Rightarrow> Map.empty | Some t \<Rightarrow> t)"

definition Tag_Get :: "(string \<rightharpoonup> string) \<Rightarrow> string \<Rightarrow> string" where
  "Tag_Get t k = (case t k of None \<Rightarrow> [] | Some s \<Rightarrow> s)"

subsection \<open>validateValue\<close>

text \<open>The locals \<^verbatim>\<open>minCanBeZero\<close> and \<^verbatim>\<open>maxCanBeZero\<close> (lines 130 to 137).\<close>

definition minCanBeZero :: "FieldValidation \<Rightarrow> bool" where
  "minCanBeZero validation = (flags validation AND ValMinNotNil > 0)"

definition maxCanBeZero :: "FieldValidation \<Rightarrow> bool" where
  "maxCanBeZero validation = (flags validation AND ValMaxNotNil > 0)"

text \<open>
  The email pattern of line 163:
  \<^verbatim>\<open>^[a-zA-Z0-9.!#$%&'*+\/=?^_`{|}~-]+@[a-zA-Z0-9](?:[a-zA-Z0-9-]{0,61}[a-zA-Z0-9])?(?:\.[a-zA-Z0-9](?:[a-zA-Z0-9-]{0,61}[a-zA-Z0-9])?)*$\<close>
\<close>

definition lit :: "char \<Rightarrow> regex" where
  "lit c = CharClass [(c, c)]"

definition Plus :: "regex \<Rightarrow> regex" where
  "Plus r = Concat r (Star r)"

definition Quest :: "regex \<Rightarrow> regex" where
  "Quest r = Alternate r EmptyMatch"

primrec Repeat_upto :: "nat \<Rightarrow> regex \<Rightarrow> regex" where
  "Repeat_upto 0 r = EmptyMatch"
| "Repeat_upto (Suc n) r = Quest (Concat r (Repeat_upto n r))"

definition alnum :: "(char \<times> char) list" where
  "alnum = [(CHR ''a'', CHR ''z''), (CHR ''A'', CHR ''Z''), (CHR ''0'', CHR ''9'')]"

definition email_local :: "(char \<times> char) list" where
  "email_local = alnum @ map (\<lambda>c. (c, c))
     [CHR ''.'', CHR ''!'', CHR ''#'', CHR ''$'', CHR ''%'', CHR ''&'', CHR 0x27,
      CHR ''*'', CHR ''+'', CHR ''/'', CHR ''='', CHR ''?'', CHR ''^'', CHR ''_'',
      CHR 0x60, CHR ''{'', CHR ''|'', CHR ''}'', CHR ''~'', CHR ''-'']"

definition email_label :: regex where
  "email_label =
     Concat (CharClass alnum)
       (Quest (Concat (Repeat_upto 61 (CharClass (alnum @ [(CHR ''-'', CHR ''-'')])))
                      (CharClass alnum)))"

definition emailRegex :: regex where
  "emailRegex =
     Concat BeginText
       (Concat (Plus (CharClass email_local))
          (Concat (lit CHR ''@'')
             (Concat email_label
                (Concat (Star (Concat (lit CHR ''.'') email_label)) EndText))))"

text \<open>
  The three blocks of \<open>validateValue\<close>. Each returns a panic, a verdict
  (\<open>Some\<close>: the function returns it) or \<open>None\<close> (the next block runs).
  Lines 139 to 146: the required check.
\<close>

definition required_check :: "rvalue \<Rightarrow> FieldValidation \<Rightarrow> panic + (bool \<times> int) option" where
  "required_check v validation =
     (if flags validation AND Required > 0 then
        (case Value_Type_Name v of
           Inl p \<Rightarrow> Inl p
         | Inr n \<Rightarrow>
             if n = ''string'' \<and> Value_String v = [] then Inr (Some (False, FailEmpty))
             else if prefix ''int'' n then
               (case Value_Int v of
                  Inl p \<Rightarrow> Inl p
                | Inr i \<Rightarrow>
                    if i = 0 \<and> \<not> minCanBeZero validation \<and> \<not> maxCanBeZero validation
                       \<and> valMin validation = 0 \<and> valMax validation = 0
                    then Inr (Some (False, FailZero))
                    else Inr None)
             else Inr None)
      else Inr None)"

text \<open>Lines 148 to 168: the checks of a value whose type is named \<^verbatim>\<open>string\<close>.\<close>

definition string_checks :: "rvalue \<Rightarrow> FieldValidation \<Rightarrow> panic + (bool \<times> int) option" where
  "string_checks v validation =
     (case Value_Type_Name v of
        Inl p \<Rightarrow> Inl p
      | Inr n \<Rightarrow>
          if n = ''string'' then
            (if lenMin validation > 0 \<and> int (length (Value_String v)) < lenMin validation
             then Inr (Some (False, FailLenMin))
             else if lenMax validation > 0 \<and> int (length (Value_String v)) > lenMax validation
             then Inr (Some (False, FailLenMax))
             else if (case regexp validation of
                        None \<Rightarrow> False
                      | Some r \<Rightarrow> \<not> MatchString r (Value_String v))
             then Inr (Some (False, FailRegexp))
             else if flags validation AND Email > 0 \<and> \<not> MatchString emailRegex (Value_String v)
             then Inr (Some (False, FailEmail))
             else Inr None)
          else Inr None)"

text \<open>
  Lines 170 to 177: the checks of a value whose type name begins with \<^verbatim>\<open>int\<close>.
  \<^verbatim>\<open>&&\<close> evaluates \<^verbatim>\<open>value.Int()\<close> only when the bound is active.
\<close>

definition max_check :: "rvalue \<Rightarrow> FieldValidation \<Rightarrow> panic + (bool \<times> int) option" where
  "max_check v validation =
     (if valMax validation \<noteq> 0 \<or> maxCanBeZero validation then
        (case Value_Int v of
           Inl p \<Rightarrow> Inl p
         | Inr i \<Rightarrow> if valMax validation < i then Inr (Some (False, FailValMax)) else Inr None)
      else Inr None)"

definition int_checks :: "rvalue \<Rightarrow> FieldValidation \<Rightarrow> panic + (bool \<times> int) option" where
  "int_checks v validation =
     (case Value_Type_Name v of
        Inl p \<Rightarrow> Inl p
      | Inr n \<Rightarrow>
          if prefix ''int'' n then
            (if valMin validation \<noteq> 0 \<or> minCanBeZero validation then
               (case Value_Int v of
                  Inl p \<Rightarrow> Inl p
                | Inr i \<Rightarrow>
                    if valMin validation > i then Inr (Some (False, FailValMin))
                    else max_check v validation)
             else max_check v validation)
          else Inr None)"

definition validateValue :: "rvalue \<Rightarrow> FieldValidation \<Rightarrow> panic + (bool \<times> int)" where
  "validateValue v validation =
     (case required_check v validation of
        Inl p \<Rightarrow> Inl p
      | Inr (Some r) \<Rightarrow> Inr r
      | Inr None \<Rightarrow>
          (case string_checks v validation of
             Inl p \<Rightarrow> Inl p
           | Inr (Some r) \<Rightarrow> Inr r
           | Inr None \<Rightarrow>
               (case int_checks v validation of
                  Inl p \<Rightarrow> Inl p
                | Inr (Some r) \<Rightarrow> Inr r
                | Inr None \<Rightarrow> Inr (True, 0))))"

subsection \<open>setValidationFromTag\<close>

definition valOpts :: "string list" where
  "valOpts = [''lenmin'', ''lenmax'', ''valmin'', ''valmax'', ''regexp'']"

text \<open>Lines 192 to 219: the body of the inner loop, for one \<open>valOpt\<close>.\<close>

definition set_valOpt :: "compiler \<Rightarrow> string \<Rightarrow> FieldValidation \<Rightarrow> string \<Rightarrow> panic + FieldValidation" where
  "set_valOpt compile opt v valOpt =
     (if prefix (valOpt @ '':'') opt then
        (let val = Replace_first opt (valOpt @ '':'') [] in
         if valOpt = ''regexp'' then
           (case compile val of
              None \<Rightarrow> Inl (MustCompile val)
            | Some r \<Rightarrow> Inr (v\<lparr>regexp := Some r\<rparr>))
         else
           (case Atoi val of
              None \<Rightarrow> Inr v
            | Some i \<Rightarrow>
                if valOpt = ''lenmin'' then Inr (v\<lparr>lenMin := i\<rparr>)
                else if valOpt = ''lenmax'' then Inr (v\<lparr>lenMax := i\<rparr>)
                else if valOpt = ''valmin'' then
                  Inr (v\<lparr>valMin := i,
                         flags := (if i = 0 then flags v OR ValMinNotNil else flags v)\<rparr>)
                else if valOpt = ''valmax'' then
                  Inr (v\<lparr>valMax := i,
                         flags := (if i = 0 then flags v OR ValMaxNotNil else flags v)\<rparr>)
                else Inr v))
      else Inr v)"

fun set_valOpts :: "compiler \<Rightarrow> string \<Rightarrow> string list \<Rightarrow> FieldValidation \<Rightarrow> panic + FieldValidation" where
  "set_valOpts compile opt [] v = Inr v"
| "set_valOpts compile opt (valOpt # rest) v =
     (case set_valOpt compile opt v valOpt of
        Inl p \<Rightarrow> Inl p
      | Inr v' \<Rightarrow> set_valOpts compile opt rest v')"

text \<open>Lines 185 to 220: the body of the outer loop, for one \<open>opt\<close>.\<close>

definition set_opt :: "compiler \<Rightarrow> FieldValidation \<Rightarrow> string \<Rightarrow> panic + FieldValidation" where
  "set_opt compile v opt =
     (let v1 = (if opt = ''req'' then v\<lparr>flags := flags v OR Required\<rparr> else v);
          v2 = (if opt = ''email'' then v1\<lparr>flags := flags v1 OR Email\<rparr> else v1)
      in set_valOpts compile opt valOpts v2)"

fun set_opts :: "compiler \<Rightarrow> string list \<Rightarrow> FieldValidation \<Rightarrow> panic + FieldValidation" where
  "set_opts compile [] v = Inr v"
| "set_opts compile (opt # opts) v =
     (case set_opt compile v opt of
        Inl p \<Rightarrow> Inl p
      | Inr v' \<Rightarrow> set_opts compile opts v')"

definition setValidationFromTag :: "compiler \<Rightarrow> FieldValidation \<Rightarrow> string \<Rightarrow> panic + FieldValidation" where
  "setValidationFromTag compile v tag = set_opts compile (SplitN_space tag) v"

subsection \<open>Validate\<close>

definition isNotInt :: "kind \<Rightarrow> bool" where
  "isNotInt k =
     (k = Int64 \<or> k = Int32 \<or> k = Int16 \<or> k = Int8 \<or> k = IntKind \<or> k = Uint64
      \<or> k = Uint32 \<or> k = Uint16 \<or> k = Uint8 \<or> k = Uint)"

definition isNotString :: "kind \<Rightarrow> bool" where
  "isNotString k = (k = String)"

definition isKeyInMap :: "string \<Rightarrow> (string \<rightharpoonup> rvalue) \<Rightarrow> bool" where
  "isKeyInMap k m = (m k \<noteq> None)"

text \<open>
  \<^verbatim>\<open>reflect.ValueOf(options.OverwriteFieldValues[field.Name])\<close>: the zero Value for an
  absent key (and for a key that holds \<^verbatim>\<open>nil\<close>).
\<close>

definition index_value :: "(string \<rightharpoonup> rvalue) \<Rightarrow> string \<Rightarrow> rvalue" where
  "index_value m k = (case m k of None \<Rightarrow> ZeroValue | Some x \<Rightarrow> x)"

text \<open>\<^verbatim>\<open>Value.FieldByName\<close>: the zero Value when the struct has no field of that name.\<close>

definition FieldByName :: "StructField list \<Rightarrow> string \<Rightarrow> rvalue" where
  "FieldByName fs n =
     (case find (\<lambda>f. Name f = n) fs of None \<Rightarrow> ZeroValue | Some f \<Rightarrow> FieldValue f)"

text \<open>Lines 57 to 60.\<close>

definition tagName_of :: "ValidationOptions option \<Rightarrow> string" where
  "tagName_of options =
     (case options of
        None \<Rightarrow> ''validation''
      | Some opts \<Rightarrow>
          if OverwriteTagName opts \<noteq> [] then OverwriteTagName opts else ''validation'')"

text \<open>Lines 69 to 77: the two \<^verbatim>\<open>continue\<close> statements.\<close>

definition restricted_out :: "ValidationOptions option \<Rightarrow> StructField \<Rightarrow> bool" where
  "restricted_out options field =
     (case options of
        None \<Rightarrow> False
      | Some opts \<Rightarrow>
          RestrictFields opts \<noteq> Map.empty \<and> \<not> index_bool (RestrictFields opts) (Name field))"

definition skipped :: "ValidationOptions option \<Rightarrow> StructField \<Rightarrow> bool" where
  "skipped options field =
     (restricted_out options field
      \<or> (\<not> isNotInt (Kind field) \<and> \<not> isNotString (Kind field)))"

text \<open>Lines 79 to 81.\<close>

definition FieldValidation_init :: FieldValidation where
  "FieldValidation_init =
     \<lparr>lenMin = - 1, lenMax = - 1, valMin = 0, valMax = 0, regexp = None, flags = 0\<rparr>"

text \<open>Lines 83 to 95: the two tag values, after \<open>OverwriteFieldTags\<close>.\<close>

definition tag_values :: "ValidationOptions option \<Rightarrow> string \<Rightarrow> StructField \<Rightarrow> string \<times> string" where
  "tag_values options tagName field =
     (let tagVal = Tag_Get (Tag field) tagName;
          tagRegexpVal = Tag_Get (Tag field) (tagName @ ''_regexp'')
      in case options of
           None \<Rightarrow> (tagVal, tagRegexpVal)
         | Some opts \<Rightarrow>
             if OverwriteFieldTags opts \<noteq> Map.empty
                \<and> index_map (OverwriteFieldTags opts) (Name field) \<noteq> Map.empty
             then
               (if index_string (index_map (OverwriteFieldTags opts) (Name field)) tagName \<noteq> []
                then index_string (index_map (OverwriteFieldTags opts) (Name field)) tagName
                else tagVal,
                if index_string (index_map (OverwriteFieldTags opts) (Name field))
                     (tagName @ ''_regexp'') \<noteq> []
                then index_string (index_map (OverwriteFieldTags opts) (Name field))
                       (tagName @ ''_regexp'')
                else tagRegexpVal)
             else (tagVal, tagRegexpVal))"

text \<open>Lines 98 to 100.\<close>

definition set_regexp :: "compiler \<Rightarrow> string \<Rightarrow> FieldValidation \<Rightarrow> panic + FieldValidation" where
  "set_regexp compile tagRegexpVal v =
     (if tagRegexpVal \<noteq> [] then
        (case compile tagRegexpVal of
           None \<Rightarrow> Inl (MustCompile tagRegexpVal)
         | Some r \<Rightarrow> Inr (v\<lparr>regexp := Some r\<rparr>))
      else Inr v)"

text \<open>Lines 102 to 110.\<close>

definition when_suffix :: "ValidationOptions option \<Rightarrow> string \<Rightarrow> FieldValidation \<Rightarrow> FieldValidation" where
  "when_suffix options name v =
     (case options of
        None \<Rightarrow> v
      | Some opts \<Rightarrow>
          if ValidateWhenSuffix opts then
            (let v1 = (if suffix ''Email'' name then v\<lparr>flags := flags v OR Email\<rparr> else v)
             in if suffix ''Price'' name \<and> valMin v1 = 0 \<and> valMax v1 = 0
                   \<and> flags v1 AND ValMinNotNil = 0 \<and> flags v1 AND ValMaxNotNil = 0
                then v1\<lparr>valMin := 0, flags := flags v1 OR ValMinNotNil\<rparr>
                else v1)
          else v)"

text \<open>Lines 79 to 110: the validation of one field.\<close>

definition field_validation :: "compiler \<Rightarrow> ValidationOptions option \<Rightarrow> string \<Rightarrow> StructField \<Rightarrow> panic + FieldValidation" where
  "field_validation compile options tagName field =
     (case setValidationFromTag compile FieldValidation_init
             (fst (tag_values options tagName field)) of
        Inl p \<Rightarrow> Inl p
      | Inr v \<Rightarrow>
          (case set_regexp compile (snd (tag_values options tagName field)) v of
             Inl p \<Rightarrow> Inl p
           | Inr v' \<Rightarrow> Inr (when_suffix options (Name field) v')))"

text \<open>
  Lines 112 to 117: the value to check. \<^verbatim>\<open>v.Elem()\<close> panics when \<open>obj\<close> is a struct
  and not a pointer to one.
\<close>

definition Elem_FieldByName :: "obj \<Rightarrow> string \<Rightarrow> panic + rvalue" where
  "Elem_FieldByName ob n =
     (case ob of
        StructPointer fs \<Rightarrow> Inr (FieldByName fs n)
      | _ \<Rightarrow> Inl ElemOfNonPointer)"

definition field_value :: "obj \<Rightarrow> ValidationOptions option \<Rightarrow> StructField \<Rightarrow> panic + rvalue" where
  "field_value ob options field =
     (case options of
        None \<Rightarrow> Elem_FieldByName ob (Name field)
      | Some opts \<Rightarrow>
          if OverwriteFieldValues opts \<noteq> Map.empty
             \<and> isKeyInMap (Name field) (OverwriteFieldValues opts)
          then Inr (index_value (OverwriteFieldValues opts) (Name field))
          else Elem_FieldByName ob (Name field))"

text \<open>Lines 65 to 124: the loop over the fields, with \<open>valid\<close> and \<open>invalidFields\<close>.\<close>

fun Validate_loop :: "compiler \<Rightarrow> obj \<Rightarrow> ValidationOptions option \<Rightarrow> string \<Rightarrow> StructField list
    \<Rightarrow> bool \<times> (string \<rightharpoonup> int) \<Rightarrow> panic + (bool \<times> (string \<rightharpoonup> int))" where
  "Validate_loop compile ob options tagName [] acc = Inr acc"
| "Validate_loop compile ob options tagName (field # rest) acc =
     (if skipped options field then Validate_loop compile ob options tagName rest acc
      else
        (case field_validation compile options tagName field of
           Inl p \<Rightarrow> Inl p
         | Inr validation \<Rightarrow>
             (case field_value ob options field of
                Inl p \<Rightarrow> Inl p
              | Inr fieldValue \<Rightarrow>
                  (case validateValue fieldValue validation of
                     Inl p \<Rightarrow> Inl p
                   | Inr r \<Rightarrow>
                       if \<not> fst r
                       then Validate_loop compile ob options tagName rest
                              (False, (snd acc)(Name field \<mapsto> snd r))
                       else Validate_loop compile ob options tagName rest acc))))"

definition struct_fields :: "obj \<Rightarrow> panic + StructField list" where
  "struct_fields ob =
     (case ob of
        StructValue fs \<Rightarrow> Inr fs
      | StructPointer fs \<Rightarrow> Inr fs
      | NilObj \<Rightarrow> Inl TypeOfZeroValue
      | NonStruct \<Rightarrow> Inl NumFieldOfNonStruct)"

definition Validate :: "compiler \<Rightarrow> obj \<Rightarrow> ValidationOptions option \<Rightarrow> panic + (bool \<times> (string \<rightharpoonup> int))" where
  "Validate compile ob options =
     (case struct_fields ob of
        Inl p \<Rightarrow> Inl p
      | Inr fs \<Rightarrow> Validate_loop compile ob options (tagName_of options) fs (True, Map.empty))"

subsection \<open>Predeclared types and the inputs of the examples\<close>

definition string_type :: rtype where
  "string_type = \<lparr>TypeName = ''string'', TypeString = ''string''\<rparr>"

definition int_type :: rtype where
  "int_type = \<lparr>TypeName = ''int'', TypeString = ''int''\<rparr>"

definition uint_type :: rtype where
  "uint_type = \<lparr>TypeName = ''uint'', TypeString = ''uint''\<rparr>"

text \<open>
  A field of a struct as a Go program declares it: \<^verbatim>\<open>Name string `validation:"tag"`\<close>,
  \<^verbatim>\<open>Name int `validation:"tag"`\<close> and \<^verbatim>\<open>Name uint `validation:"tag"`\<close>, with the value
  the record holds.
\<close>

definition string_field :: "string \<Rightarrow> string \<Rightarrow> string \<Rightarrow> StructField" where
  "string_field n tg s =
     \<lparr>Name = n, Kind = String, Tag = [''validation'' \<mapsto> tg],
      FieldValue = StringValue string_type s\<rparr>"

definition int_field :: "string \<Rightarrow> string \<Rightarrow> int \<Rightarrow> StructField" where
  "int_field n tg i =
     \<lparr>Name = n, Kind = IntKind, Tag = [''validation'' \<mapsto> tg],
      FieldValue = IntValue int_type i\<rparr>"

definition uint_field :: "string \<Rightarrow> string \<Rightarrow> nat \<Rightarrow> StructField" where
  "uint_field n tg i =
     \<lparr>Name = n, Kind = Uint, Tag = [''validation'' \<mapsto> tg],
      FieldValue = UintValue uint_type i\<rparr>"

text \<open>
  \<^verbatim>\<open>regexp.Compile\<close> on the patterns of the examples: \<^verbatim>\<open>a\<close> and \<^verbatim>\<open>b\<close> are
  one-letter patterns, \<^verbatim>\<open>^[A-Z][A-Z]$\<close> is the pattern of the field Country of the
  tests, and \<^verbatim>\<open>(\<close> is malformed (a missing closing parenthesis). The examples
  compile no other pattern.
\<close>

definition example_compile :: compiler where
  "example_compile p =
     (if p = ''a'' then Some (lit CHR ''a'')
      else if p = ''b'' then Some (lit CHR ''b'')
      else if p = ''^[A-Z][A-Z]$'' then
        Some (Concat BeginText
               (Concat (CharClass [(CHR ''A'', CHR ''Z'')])
                  (Concat (CharClass [(CHR ''A'', CHR ''Z'')]) EndText)))
      else None)"

text \<open>
  Anchored full-string matching, in the words of the specification: the whole string
  must match the pattern, not just a part of it. This is not what \<open>MatchString\<close> does;
  it is defined here to compare the two.
\<close>

definition full_match :: "regex \<Rightarrow> string \<Rightarrow> bool" where
  "full_match r s = list_ex (\<lambda>p. snd p = []) (ends r (True, s))"

section \<open>Properties\<close>

lemmas Fail_defs = FailLenMin_def FailLenMax_def FailValMin_def FailValMax_def
  FailEmpty_def FailRegexp_def FailEmail_def FailZero_def

lemmas flag_defs = ValMinNotNil_def ValMaxNotNil_def Required_def Email_def

lemmas validateValue_defs = validateValue_def required_check_def string_checks_def
  int_checks_def max_check_def Value_Type_Name_def Value_String_def Value_Int_def

lemmas Validate_defs = Validate_def struct_fields_def tagName_of_def skipped_def
  restricted_out_def isNotInt_def isNotString_def field_validation_def tag_values_def
  Tag_Get_def setValidationFromTag_def set_opt_def valOpts_def set_valOpt_def Atoi_def
  digit_def set_regexp_def when_suffix_def field_value_def Elem_FieldByName_def
  FieldByName_def index_bool_def index_string_def index_map_def index_value_def
  isKeyInMap_def FieldValidation_init_def minCanBeZero_def maxCanBeZero_def
  string_field_def int_field_def uint_field_def string_type_def int_type_def uint_type_def

subsection \<open>A validation with nothing set\<close>

text \<open>
  C8. A \<open>FieldValidation\<close> as line 79 to 81 make it (both lengths at the sentinel
  \<open>-1\<close>, both value bounds zero, no pattern, no flag) passes every value that has a
  type: strings, signed and unsigned integers of any width and type name, and values
  of any other kind. The verdict is \<open>(true, 0)\<close>: no failure kind is reported.
\<close>

theorem C8_empty_validation_passes:
  "validateValue (StringValue t s) FieldValidation_init = Inr (True, 0)
   \<and> validateValue (IntValue t i) FieldValidation_init = Inr (True, 0)
   \<and> validateValue (UintValue t n) FieldValidation_init = Inr (True, 0)
   \<and> validateValue (OtherValue t) FieldValidation_init = Inr (True, 0)"
  by (simp add: validateValue_defs FieldValidation_init_def minCanBeZero_def
      maxCanBeZero_def flag_defs)

subsection \<open>Auxiliary facts\<close>

text \<open>The bit of a flag is set once the flag has been or-ed in.\<close>

lemma flag_set_min: "0 < (f OR ValMinNotNil) AND ValMinNotNil"
  unfolding ValMinNotNil_def
  by (metis and.commute bit.disj_conj_distrib or.commute or.right_neutral
    zero_and_eq zero_less_numeral)

lemma flag_set_max: "0 < (f OR ValMaxNotNil) AND ValMaxNotNil"
  unfolding ValMaxNotNil_def
  by (metis and.commute bit.disj_conj_distrib or.commute or.right_neutral
    zero_and_eq zero_less_numeral)

lemma validateValue_other_name:
  assumes "Value_Type_Name v = Inr n" and "n \<noteq> ''string''" and "\<not> prefix ''int'' n"
  shows "validateValue v validation = Inr (True, 0)"
  using assms
  by (simp add: validateValue_def required_check_def string_checks_def int_checks_def)

text \<open>
  \<open>search\<close> tries every offset of the text: a match may begin anywhere, and since
  \<open>ends\<close> does not ask where it stops, it may end anywhere.
\<close>

lemma search_iff: "search r b s \<longleftrightarrow> (\<exists>i\<le>length s. ends r (b \<and> i = 0, drop i s) \<noteq> [])"
proof (induction s arbitrary: b)
  case Nil
  then show ?case by simp
next
  case (Cons c cs)
  show ?case
  proof
    assume "search r b (c # cs)"
    then consider "ends r (b, c # cs) \<noteq> []" | "search r False cs" by auto
    then show "\<exists>i\<le>length (c # cs). ends r (b \<and> i = 0, drop i (c # cs)) \<noteq> []"
    proof cases
      case 1
      then show ?thesis by (intro exI[of _ 0]) simp
    next
      case 2
      then obtain i where "i \<le> length cs" "ends r (False, drop i cs) \<noteq> []"
        using Cons.IH[of False] by auto
      then show ?thesis by (intro exI[of _ "Suc i"]) simp
    qed
  next
    assume "\<exists>i\<le>length (c # cs). ends r (b \<and> i = 0, drop i (c # cs)) \<noteq> []"
    then obtain i where i: "i \<le> length (c # cs)" "ends r (b \<and> i = 0, drop i (c # cs)) \<noteq> []"
      by blast
    show "search r b (c # cs)"
    proof (cases i)
      case 0
      with i show ?thesis by simp
    next
      case (Suc j)
      with i have "j \<le> length cs" "ends r (False, drop j cs) \<noteq> []" by auto
      then have "search r False cs" using Cons.IH[of False] by auto
      then show ?thesis by simp
    qed
  qed
qed

lemma MatchString_iff:
  "MatchString r s \<longleftrightarrow> (\<exists>i\<le>length s. ends r (i = 0, drop i s) \<noteq> [])"
  by (simp add: MatchString_def search_iff)

subsection \<open>Integer bounds\<close>

text \<open>
  C1. The claim: the bound checks apply to a field of any signed or unsigned integer
  width. The candidate filter \<open>isNotInt\<close> admits the unsigned kinds, but
  \<open>validateValue\<close> checks bounds only when the type name begins with \<^verbatim>\<open>int\<close>, and
  \<^verbatim>\<open>uint\<close> does not: an unsigned value whose type name begins with \<^verbatim>\<open>uint\<close>
  (\<^verbatim>\<open>uint\<close>, \<^verbatim>\<open>uint8\<close>, ..., \<^verbatim>\<open>uint64\<close>) passes under every validation. A
  field \<^verbatim>\<open>Count uint `validation:"valmin:5"`\<close> holding 0 is valid, and so is a field
  \<^verbatim>\<open>Count uint `validation:"valmax:5"`\<close> holding 9.
\<close>

theorem C1_unsigned_bounds_not_checked:
  "isNotInt Uint \<and> isNotInt Uint8 \<and> isNotInt Uint16 \<and> isNotInt Uint32 \<and> isNotInt Uint64
   \<and> validateValue (UintValue \<lparr>TypeName = ''uint'' @ width, TypeString = ts\<rparr> n) validation
       = Inr (True, 0)
   \<and> Validate compile (StructPointer [uint_field ''Count'' ''valmin:5'' 0]) None
       = Inr (True, Map.empty)
   \<and> Validate compile (StructPointer [uint_field ''Count'' ''valmax:5'' 9]) None
       = Inr (True, Map.empty)"
proof -
  have "validateValue (UintValue \<lparr>TypeName = ''uint'' @ width, TypeString = ts\<rparr> n) validation
       = Inr (True, 0)"
    by (rule validateValue_other_name[where n = "''uint'' @ width"])
       (simp_all add: Value_Type_Name_def)
  moreover have "Validate compile (StructPointer [uint_field ''Count'' ''valmin:5'' 0]) None
       = Inr (True, Map.empty)"
    by (simp add: Validate_defs validateValue_defs flag_defs)
  moreover have "Validate compile (StructPointer [uint_field ''Count'' ''valmax:5'' 9]) None
       = Inr (True, Map.empty)"
    by (simp add: Validate_defs validateValue_defs flag_defs)
  ultimately show ?thesis by (simp add: isNotInt_def)
qed

subsection \<open>The pattern\<close>

text \<open>
  C2, as amended. For a value of type \<^verbatim>\<open>string\<close> and a validation with a pattern,
  \<open>validateValue\<close> fails with \<open>FailRegexp\<close> exactly when the checks before it do not
  fail (required and empty, \<open>lenMin\<close>, \<open>lenMax\<close>) and \<open>MatchString\<close> finds no match,
  where \<open>MatchString\<close> looks for a match that begins at any offset of the string and
  ends anywhere: the pattern is anchored only by its own \<^verbatim>\<open>^\<close> and \<^verbatim>\<open>$\<close>.
\<close>

theorem C2_regexp_fails_iff_no_match_anywhere:
  assumes "TypeName t = ''string''" and "regexp validation = Some r"
  shows "((validateValue (StringValue t s) validation = Inr (False, FailRegexp))
      \<longleftrightarrow> (\<not> (flags validation AND Required > 0 \<and> s = [])
           \<and> \<not> (lenMin validation > 0 \<and> int (length s) < lenMin validation)
           \<and> \<not> (lenMax validation > 0 \<and> int (length s) > lenMax validation)
           \<and> \<not> MatchString r s))
     \<and> (MatchString r s \<longleftrightarrow> (\<exists>i\<le>length s. ends r (i = 0, drop i s) \<noteq> []))"
proof -
  have "(validateValue (StringValue t s) validation = Inr (False, FailRegexp))
      \<longleftrightarrow> (\<not> (flags validation AND Required > 0 \<and> s = [])
           \<and> \<not> (lenMin validation > 0 \<and> int (length s) < lenMin validation)
           \<and> \<not> (lenMax validation > 0 \<and> int (length s) > lenMax validation)
           \<and> \<not> MatchString r s)"
    using assms by (auto simp add: validateValue_defs Fail_defs)
  then show ?thesis using MatchString_iff by blast
qed

theorem C2_regexp_fails_iff_no_match_anywhere_witness:
  "validateValue (StringValue string_type ''xyz'')
       (FieldValidation_init\<lparr>regexp := Some (lit CHR ''b'')\<rparr>) = Inr (False, FailRegexp)
   \<and> \<not> MatchString (lit CHR ''b'') ''xyz''"
  using C2_regexp_fails_iff_no_match_anywhere[of string_type
      "FieldValidation_init\<lparr>regexp := Some (lit CHR ''b'')\<rparr>" "lit CHR ''b''" "''xyz''"]
  by (simp add: FieldValidation_init_def string_type_def flag_defs MatchString_def lit_def
      in_class_def)

text \<open>
  The claim C2 as it stands (failure with \<open>FailRegexp\<close> exactly when the whole string
  does not match) fails twice. The pattern \<^verbatim>\<open>b\<close> does not match the whole of
  \<^verbatim>\<open>abc\<close>, and the value passes. And with \<^verbatim>\<open>lenmin:5\<close> the string \<^verbatim>\<open>xyz\<close>, which
  the pattern does not match, fails with \<open>FailLenMin\<close>, not \<open>FailRegexp\<close>.
\<close>

theorem C2_counterexample:
  "validateValue (StringValue string_type ''abc'')
       (FieldValidation_init\<lparr>regexp := Some (lit CHR ''b'')\<rparr>) = Inr (True, 0)
   \<and> \<not> full_match (lit CHR ''b'') ''abc''
   \<and> validateValue (StringValue string_type ''xyz'')
       (FieldValidation_init\<lparr>lenMin := 5, regexp := Some (lit CHR ''b'')\<rparr>) = Inr (False, FailLenMin)
   \<and> \<not> full_match (lit CHR ''b'') ''xyz''"
  by (simp add: validateValue_defs FieldValidation_init_def string_type_def flag_defs
      minCanBeZero_def maxCanBeZero_def MatchString_def lit_def in_class_def full_match_def Fail_defs)

subsection \<open>Length bounds\<close>

text \<open>
  C3. The claim: a configured \<open>lenMax\<close> of 0 is an active bound, so that a string of
  positive length fails with \<open>FailLenMax\<close>. Lines 80 and 81 set the sentinel \<open>-1\<close>, but
  lines 149 and 152 ask for a bound greater than 0: with \<open>lenMax = 0\<close> every string
  passes, and a field \<^verbatim>\<open>County string `validation:"lenmax:0"`\<close> holding \<^verbatim>\<open>a\<close> is
  valid.
\<close>

theorem C3_lenmax_zero_not_enforced:
  "validateValue (StringValue string_type s) (FieldValidation_init\<lparr>lenMax := 0\<rparr>) = Inr (True, 0)
   \<and> Validate compile (StructPointer [string_field ''County'' ''lenmax:0'' ''a'']) None
       = Inr (True, Map.empty)"
proof -
  have "validateValue (StringValue string_type s) (FieldValidation_init\<lparr>lenMax := 0\<rparr>) = Inr (True, 0)"
    by (simp add: validateValue_defs FieldValidation_init_def string_type_def flag_defs
        minCanBeZero_def maxCanBeZero_def)
  moreover have "Validate compile (StructPointer [string_field ''County'' ''lenmax:0'' ''a'']) None
       = Inr (True, Map.empty)"
    by (simp add: Validate_defs validateValue_defs flag_defs)
  ultimately show ?thesis by simp
qed

subsection \<open>Required integers and zero\<close>

text \<open>
  On a signed integer whose type name begins with \<^verbatim>\<open>int\<close> (as all predeclared signed
  integer types do), line 143 does what it is written for: with the flag \<open>Required\<close>
  the value zero fails with \<open>FailZero\<close> if and only if none of \<open>minCanBeZero\<close>,
  \<open>maxCanBeZero\<close>, \<open>valMin \<noteq> 0\<close>, \<open>valMax \<noteq> 0\<close> holds.
\<close>

lemma required_zero_signed:
  assumes "flags validation AND Required > 0" and "prefix ''int'' (TypeName t)"
  shows "(validateValue (IntValue t 0) validation = Inr (False, FailZero))
      = (\<not> (minCanBeZero validation \<or> maxCanBeZero validation
            \<or> valMin validation \<noteq> 0 \<or> valMax validation \<noteq> 0))"
proof -
  from assms(2) have "TypeName t \<noteq> ''string''" by auto
  with assms show ?thesis by (auto simp add: validateValue_defs Fail_defs)
qed

text \<open>
  C4. The claim: a required validation on an integer value equal to zero fails with
  \<open>FailZero\<close> if and only if none of \<open>minCanBeZero\<close>, \<open>maxCanBeZero\<close>, \<open>valMin \<noteq> 0\<close>,
  \<open>valMax \<noteq> 0\<close> holds. For the signed field of the claim's examples the code does
  so: \<^verbatim>\<open>Age int `validation:"req"`\<close> holding 0 fails with \<open>FailZero\<close>, and declared
  \<^verbatim>\<open>req valmin:0\<close> it is valid. But line 143 asks for a type name that begins with
  \<^verbatim>\<open>int\<close>, and the unsigned kinds that \<open>isNotInt\<close> admits have none: an unsigned
  zero under a validation that is required and has no bound and no flag of a
  meaningful zero passes, and a field \<^verbatim>\<open>Age uint `validation:"req"`\<close> holding 0 is
  valid.
\<close>

theorem C4_unsigned_zero_not_rejected:
  "isNotInt Uint
   \<and> 0 < flags (FieldValidation_init\<lparr>flags := Required\<rparr>) AND Required
   \<and> \<not> minCanBeZero (FieldValidation_init\<lparr>flags := Required\<rparr>)
   \<and> \<not> maxCanBeZero (FieldValidation_init\<lparr>flags := Required\<rparr>)
   \<and> valMin (FieldValidation_init\<lparr>flags := Required\<rparr>) = 0
   \<and> valMax (FieldValidation_init\<lparr>flags := Required\<rparr>) = 0
   \<and> validateValue (UintValue \<lparr>TypeName = ''uint'' @ width, TypeString = ts\<rparr> 0)
         (FieldValidation_init\<lparr>flags := Required\<rparr>) = Inr (True, 0)
   \<and> Validate compile (StructPointer [uint_field ''Age'' ''req'' 0]) None
       = Inr (True, Map.empty)
   \<and> Validate compile (StructPointer [int_field ''Age'' ''req'' 0]) None
       = Inr (False, [''Age'' \<mapsto> FailZero])
   \<and> Validate compile (StructPointer [int_field ''Age'' ''req valmin:0'' 0]) None
       = Inr (True, Map.empty)"
proof -
  have 1: "validateValue (UintValue \<lparr>TypeName = ''uint'' @ width, TypeString = ts\<rparr> 0)
         (FieldValidation_init\<lparr>flags := Required\<rparr>) = Inr (True, 0)"
    by (rule validateValue_other_name[where n = "''uint'' @ width"])
       (simp_all add: Value_Type_Name_def)
  have 2: "Validate compile (StructPointer [uint_field ''Age'' ''req'' 0]) None
       = Inr (True, Map.empty)"
    by (simp add: Validate_defs validateValue_defs flag_defs Fail_defs)
  have 3: "Validate compile (StructPointer [int_field ''Age'' ''req'' 0]) None
       = Inr (False, [''Age'' \<mapsto> FailZero])"
    by (simp add: Validate_defs validateValue_defs flag_defs Fail_defs)
  have 4: "Validate compile (StructPointer [int_field ''Age'' ''req valmin:0'' 0]) None
       = Inr (True, Map.empty)"
    by (simp add: Validate_defs validateValue_defs flag_defs Fail_defs)
  have 5: "0 < flags (FieldValidation_init\<lparr>flags := Required\<rparr>) AND Required
     \<and> \<not> minCanBeZero (FieldValidation_init\<lparr>flags := Required\<rparr>)
     \<and> \<not> maxCanBeZero (FieldValidation_init\<lparr>flags := Required\<rparr>)
     \<and> valMin (FieldValidation_init\<lparr>flags := Required\<rparr>) = 0
     \<and> valMax (FieldValidation_init\<lparr>flags := Required\<rparr>) = 0"
    by (simp add: FieldValidation_init_def flag_defs minCanBeZero_def maxCanBeZero_def)
  from 1 2 3 4 5 show ?thesis by (simp add: isNotInt_def)
qed

text \<open>
  The bound checks on signed integers, in the order of the code: the lower bound
  first, the upper bound when the lower one did not fail.
\<close>

lemma signed_bounds_checked:
  assumes "prefix ''int'' (TypeName t)"
  shows "(valMin validation \<noteq> 0 \<or> minCanBeZero validation) \<Longrightarrow> i < valMin validation
           \<Longrightarrow> validateValue (IntValue t i) validation = Inr (False, FailValMin)"
    and "(valMax validation \<noteq> 0 \<or> maxCanBeZero validation) \<Longrightarrow> valMax validation < i
           \<Longrightarrow> \<not> ((valMin validation \<noteq> 0 \<or> minCanBeZero validation) \<and> i < valMin validation)
           \<Longrightarrow> validateValue (IntValue t i) validation = Inr (False, FailValMax)"
proof -
  from assms have ns: "TypeName t \<noteq> ''string''" by auto
  show "(valMin validation \<noteq> 0 \<or> minCanBeZero validation) \<Longrightarrow> i < valMin validation
           \<Longrightarrow> validateValue (IntValue t i) validation = Inr (False, FailValMin)"
    using assms ns by (auto simp add: validateValue_defs)
  show "(valMax validation \<noteq> 0 \<or> maxCanBeZero validation) \<Longrightarrow> valMax validation < i
           \<Longrightarrow> \<not> ((valMin validation \<noteq> 0 \<or> minCanBeZero validation) \<and> i < valMin validation)
           \<Longrightarrow> validateValue (IntValue t i) validation = Inr (False, FailValMax)"
    using assms ns by (auto simp add: validateValue_defs)
qed

subsection \<open>Bounds of zero\<close>

text \<open>
  C5. Parsing \<^verbatim>\<open>valmin:0\<close> sets \<open>valMin\<close> to 0 and the flag \<open>ValMinNotNil\<close>, after which
  \<open>minCanBeZero\<close> holds; likewise \<^verbatim>\<open>valmax:0\<close>, \<open>ValMaxNotNil\<close> and \<open>maxCanBeZero\<close>.
  A field declared \<^verbatim>\<open>valmin:0 valmax:0\<close> is valid for 0, fails with \<open>FailValMin\<close> for
  -1 and with \<open>FailValMax\<close> for 1. A field declared only \<^verbatim>\<open>valmax:5\<close> is valid for
  every value up to 5 (0 among them) and fails with \<open>FailValMax\<close> above: the lower
  bound is never what fails.
\<close>

theorem C5_meaningful_zero:
  "setValidationFromTag compile v ''valmin:0''
     = Inr (v\<lparr>valMin := 0, flags := flags v OR ValMinNotNil\<rparr>)
   \<and> minCanBeZero (v\<lparr>valMin := 0, flags := flags v OR ValMinNotNil\<rparr>)
   \<and> setValidationFromTag compile v ''valmax:0''
     = Inr (v\<lparr>valMax := 0, flags := flags v OR ValMaxNotNil\<rparr>)
   \<and> maxCanBeZero (v\<lparr>valMax := 0, flags := flags v OR ValMaxNotNil\<rparr>)
   \<and> Validate compile (StructPointer [int_field ''ZeroBoth'' ''valmin:0 valmax:0'' 0]) None
       = Inr (True, Map.empty)
   \<and> Validate compile (StructPointer [int_field ''ZeroBoth'' ''valmin:0 valmax:0'' (- 1)]) None
       = Inr (False, [''ZeroBoth'' \<mapsto> FailValMin])
   \<and> Validate compile (StructPointer [int_field ''ZeroBoth'' ''valmin:0 valmax:0'' 1]) None
       = Inr (False, [''ZeroBoth'' \<mapsto> FailValMax])
   \<and> Validate compile (StructPointer [int_field ''OnlyMax'' ''valmax:5'' i]) None
       = (if 5 < i then Inr (False, [''OnlyMax'' \<mapsto> FailValMax]) else Inr (True, Map.empty))"
proof -
  have 1: "setValidationFromTag compile v ''valmin:0''
     = Inr (v\<lparr>valMin := 0, flags := flags v OR ValMinNotNil\<rparr>)"
    by (simp add: setValidationFromTag_def set_opt_def valOpts_def set_valOpt_def Atoi_def
        digit_def)
  have 2: "setValidationFromTag compile v ''valmax:0''
     = Inr (v\<lparr>valMax := 0, flags := flags v OR ValMaxNotNil\<rparr>)"
    by (simp add: setValidationFromTag_def set_opt_def valOpts_def set_valOpt_def Atoi_def
        digit_def)
  have 3: "minCanBeZero (v\<lparr>valMin := 0, flags := flags v OR ValMinNotNil\<rparr>)"
    by (simp add: minCanBeZero_def flag_set_min)
  have 4: "maxCanBeZero (v\<lparr>valMax := 0, flags := flags v OR ValMaxNotNil\<rparr>)"
    by (simp add: maxCanBeZero_def flag_set_max)
  have 5: "Validate compile (StructPointer [int_field ''ZeroBoth'' ''valmin:0 valmax:0'' 0]) None
       = Inr (True, Map.empty)"
    by (simp add: Validate_defs validateValue_defs flag_defs Fail_defs)
  have 6: "Validate compile (StructPointer [int_field ''ZeroBoth'' ''valmin:0 valmax:0'' (- 1)]) None
       = Inr (False, [''ZeroBoth'' \<mapsto> FailValMin])"
    by (simp add: Validate_defs validateValue_defs flag_defs Fail_defs)
  have 7: "Validate compile (StructPointer [int_field ''ZeroBoth'' ''valmin:0 valmax:0'' 1]) None
       = Inr (False, [''ZeroBoth'' \<mapsto> FailValMax])"
    by (simp add: Validate_defs validateValue_defs flag_defs Fail_defs)
  have 8: "Validate compile (StructPointer [int_field ''OnlyMax'' ''valmax:5'' i]) None
       = (if 5 < i then Inr (False, [''OnlyMax'' \<mapsto> FailValMax]) else Inr (True, Map.empty))"
    by (simp add: Validate_defs validateValue_defs flag_defs Fail_defs)
  from 1 2 3 4 5 6 7 8 show ?thesis by blast
qed

subsection \<open>Panics\<close>

text \<open>Every panic of \<open>setValidationFromTag\<close> is that of \<^verbatim>\<open>regexp.MustCompile\<close>.\<close>

lemma set_valOpt_Inl:
  "set_valOpt compile opt v valOpt = Inl p \<Longrightarrow> \<exists>pat. p = MustCompile pat \<and> compile pat = None"
  by (auto simp add: set_valOpt_def Let_def split: if_splits option.splits)

lemma set_valOpts_Inl:
  "set_valOpts compile opt vs v = Inl p \<Longrightarrow> \<exists>pat. p = MustCompile pat \<and> compile pat = None"
proof (induction vs arbitrary: v)
  case Nil
  then show ?case by simp
next
  case (Cons valOpt rest)
  show ?case
  proof (cases "set_valOpt compile opt v valOpt")
    case (Inl q)
    with Cons.prems have "p = q" by simp
    with Inl show ?thesis using set_valOpt_Inl by blast
  next
    case (Inr v')
    with Cons.prems have "set_valOpts compile opt rest v' = Inl p" by simp
    then show ?thesis by (rule Cons.IH)
  qed
qed

lemma set_opt_Inl:
  "set_opt compile v opt = Inl p \<Longrightarrow> \<exists>pat. p = MustCompile pat \<and> compile pat = None"
  unfolding set_opt_def Let_def by (rule set_valOpts_Inl)

text \<open>A token \<^verbatim>\<open>regexp:\<close> with a malformed pattern panics, wherever it stands in the tag.\<close>

lemma set_opt_malformed:
  assumes "prefix ''regexp:'' opt" and "compile (drop 7 opt) = None"
  shows "set_opt compile v opt = Inl (MustCompile (drop 7 opt))"
proof -
  from assms(1) obtain pat where opt: "opt = ''regexp:'' @ pat"
    by (auto simp add: prefix_def)
  with assms(2) have c: "compile pat = None" by simp
  have 1: "set_valOpt compile opt v ''lenmin'' = Inr v" 
    unfolding opt by (simp add: set_valOpt_def)
  have 2: "set_valOpt compile opt v ''lenmax'' = Inr v" 
    unfolding opt by (simp add: set_valOpt_def)
  have 3: "set_valOpt compile opt v ''valmin'' = Inr v" 
    unfolding opt by (simp add: set_valOpt_def)
  have 4: "set_valOpt compile opt v ''valmax'' = Inr v" 
    unfolding opt by (simp add: set_valOpt_def)
  have 5: "set_valOpt compile opt v ''regexp'' = Inl (MustCompile pat)" 
    unfolding opt using c by (simp add: set_valOpt_def)
  have n: "opt \<noteq> ''req''" "opt \<noteq> ''email''" unfolding opt by auto
  have d: "drop 7 opt = pat" unfolding opt by simp
  show ?thesis
    using n by (simp add: set_opt_def valOpts_def 1 2 3 4 5 d)
qed

lemma set_opts_malformed:
  assumes "\<exists>opt\<in>set opts. prefix ''regexp:'' opt \<and> compile (drop 7 opt) = None"
  shows "\<exists>pat. compile pat = None \<and> set_opts compile opts v = Inl (MustCompile pat)"
  using assms
proof (induction opts arbitrary: v)
  case Nil
  then show ?case by simp
next
  case (Cons opt opts)
  show ?case
  proof (cases "set_opt compile v opt")
    case (Inl p)
    then obtain pat where "p = MustCompile pat" "compile pat = None"
      using set_opt_Inl by blast
    with Inl show ?thesis by auto
  next
    case (Inr v')
    have "\<not> (prefix ''regexp:'' opt \<and> compile (drop 7 opt) = None)"
      using Inr set_opt_malformed[of opt compile v] by auto
    with Cons.prems have "\<exists>opt\<in>set opts. prefix ''regexp:'' opt \<and> compile (drop 7 opt) = None"
      by auto
    then obtain pat where "compile pat = None" "set_opts compile opts v' = Inl (MustCompile pat)"
      using Cons.IH by blast
    with Inr show ?thesis by auto
  qed
qed

lemma set_opts_Inl:
  "set_opts compile opts v = Inl p \<Longrightarrow> \<exists>pat. p = MustCompile pat \<and> compile pat = None"
proof (induction opts arbitrary: v)
  case Nil
  then show ?case by simp
next
  case (Cons opt opts)
  show ?case
  proof (cases "set_opt compile v opt")
    case (Inl q)
    with Cons.prems have "p = q" by simp
    with Inl show ?thesis using set_opt_Inl by blast
  next
    case (Inr v')
    with Cons.prems have "set_opts compile opts v' = Inl p" by simp
    then show ?thesis by (rule Cons.IH)
  qed
qed

lemma field_validation_malformed:
  assumes "(\<exists>opt\<in>set (SplitN_space (fst (tag_values options tagName field))).
              prefix ''regexp:'' opt \<and> compile (drop 7 opt) = None)
           \<or> (snd (tag_values options tagName field) \<noteq> []
               \<and> compile (snd (tag_values options tagName field)) = None)"
  shows "\<exists>pat. compile pat = None
           \<and> field_validation compile options tagName field = Inl (MustCompile pat)"
proof (cases "setValidationFromTag compile FieldValidation_init (fst (tag_values options tagName field))")
  case (Inl p)
  then obtain pat where "p = MustCompile pat" "compile pat = None"
    unfolding setValidationFromTag_def using set_opts_Inl by blast
  with Inl show ?thesis by (simp add: field_validation_def)
next
  case (Inr v)
  have "\<not> (\<exists>opt\<in>set (SplitN_space (fst (tag_values options tagName field))).
              prefix ''regexp:'' opt \<and> compile (drop 7 opt) = None)"
  proof
    assume "\<exists>opt\<in>set (SplitN_space (fst (tag_values options tagName field))).
              prefix ''regexp:'' opt \<and> compile (drop 7 opt) = None"
    then obtain pat where "set_opts compile (SplitN_space (fst (tag_values options tagName field)))
        FieldValidation_init = Inl (MustCompile pat)"
      using set_opts_malformed by blast
    with Inr show False by (simp add: setValidationFromTag_def)
  qed
  with assms have "snd (tag_values options tagName field) \<noteq> []"
     "compile (snd (tag_values options tagName field)) = None" by blast+
  with Inr show ?thesis by (simp add: field_validation_def set_regexp_def)
qed

text \<open>A panic at one field that is not skipped is a panic of the loop.\<close>

lemma Validate_loop_panics:
  assumes "field \<in> set fs" and "\<not> skipped options field"
    and "isl (field_validation compile options tagName field) \<or> isl (field_value ob options field)"
  shows "isl (Validate_loop compile ob options tagName fs acc)"
  using assms(1)
proof (induction fs arbitrary: acc)
  case Nil
  then show ?case by simp
next
  case (Cons f rest)
  show ?case
  proof (cases "f = field")
    case True
    with assms(2,3) show ?thesis
      by (auto simp add: isl_def split: sum.splits)
  next
    case False
    with Cons.prems have "field \<in> set rest" by simp
    then have "\<And>acc. isl (Validate_loop compile ob options tagName rest acc)"
      by (rule Cons.IH)
    then show ?thesis
      by (auto split: sum.splits)
  qed
qed

text \<open>
  C6. When a field that is not skipped has a malformed pattern, in a token
  \<^verbatim>\<open>regexp:\<close> of its tag value or in its regexp tag value (each taken after
  \<open>OverwriteFieldTags\<close>), building its validation panics in \<^verbatim>\<open>regexp.MustCompile\<close>,
  and \<open>Validate\<close> panics: it returns neither a verdict nor a map of failed fields.
\<close>

theorem C6_malformed_pattern_panics:
  assumes "struct_fields ob = Inr fs" and "field \<in> set fs" and "\<not> skipped options field"
    and "(\<exists>opt\<in>set (SplitN_space (fst (tag_values options (tagName_of options) field))).
              prefix ''regexp:'' opt \<and> compile (drop 7 opt) = None)
           \<or> (snd (tag_values options (tagName_of options) field) \<noteq> []
               \<and> compile (snd (tag_values options (tagName_of options) field)) = None)"
  shows "(\<exists>pat. compile pat = None
            \<and> field_validation compile options (tagName_of options) field = Inl (MustCompile pat))
         \<and> (\<exists>p. Validate compile ob options = Inl p)"
proof -
  from assms(4) obtain pat where pat: "compile pat = None"
    "field_validation compile options (tagName_of options) field = Inl (MustCompile pat)"
    using field_validation_malformed by blast
  then have "isl (Validate_loop compile ob options (tagName_of options) fs (True, Map.empty))"
    using assms(2,3) by (intro Validate_loop_panics[of field]) simp_all
  then have "\<exists>p. Validate compile ob options = Inl p"
    using assms(1) by (auto simp add: Validate_def isl_def)
  with pat show ?thesis by blast
qed

theorem C6_malformed_pattern_panics_witness:
  "Validate example_compile
      (StructPointer [string_field ''PostCode'' ''req regexp:('' ''43-155'']) None
     = Inl (MustCompile ''('')
   \<and> Validate example_compile
      (StructPointer [\<lparr>Name = ''PostCode'', Kind = String,
          Tag = [''validation'' \<mapsto> ''req'', ''validation_regexp'' \<mapsto> ''(''],
          FieldValue = StringValue string_type ''43-155''\<rparr>]) None
     = Inl (MustCompile ''('')
   \<and> Validate example_compile
      (StructPointer [string_field ''PostCode'' ''req'' ''43-155''])
      (Some \<lparr>RestrictFields = Map.empty,
             OverwriteFieldTags = [''PostCode'' \<mapsto> [''validation'' \<mapsto> ''regexp:('']],
             OverwriteTagName = [], ValidateWhenSuffix = False,
             OverwriteFieldValues = Map.empty\<rparr>)
     = Inl (MustCompile ''('')"
  using C6_malformed_pattern_panics[of "StructPointer [string_field ''PostCode'' ''req regexp:('' ''43-155'']"
      "[string_field ''PostCode'' ''req regexp:('' ''43-155'']"
      "string_field ''PostCode'' ''req regexp:('' ''43-155''" None example_compile]
  by (simp add: Validate_defs example_compile_def)

subsection \<open>Two sources for the pattern\<close>

text \<open>
  C7. When the regexp tag value of a field (the tag \<open>tagName\<close> followed by
  \<^verbatim>\<open>_regexp\<close>, after \<open>OverwriteFieldTags\<close>) is not empty and the validation of the
  field is built without a panic, its pattern is the compiled regexp tag value,
  whatever \<^verbatim>\<open>regexp:\<close> tokens the primary tag value holds: line 99 runs after line 97.
\<close>

theorem C7_key_regexp_wins:
  assumes "snd (tag_values options tagName field) \<noteq> []"
    and "field_validation compile options tagName field = Inr v"
  shows "regexp v = compile (snd (tag_values options tagName field)) \<and> regexp v \<noteq> None"
proof -
  have ws: "regexp (when_suffix options n w) = regexp w" for n w
    by (simp add: when_suffix_def Let_def split: option.splits)
  from assms show ?thesis
    by (auto simp add: field_validation_def set_regexp_def ws split: sum.splits option.splits)
qed

theorem C7_key_regexp_wins_witness:
  "field_validation example_compile None ''validation''
      \<lparr>Name = ''Code'', Kind = String,
       Tag = [''validation'' \<mapsto> ''regexp:a'', ''validation_regexp'' \<mapsto> ''b''],
       FieldValue = StringValue string_type ''a''\<rparr>
     = Inr (FieldValidation_init\<lparr>regexp := Some (lit CHR ''b'')\<rparr>)
   \<and> Validate example_compile
      (StructPointer [\<lparr>Name = ''Code'', Kind = String,
         Tag = [''validation'' \<mapsto> ''regexp:a'', ''validation_regexp'' \<mapsto> ''b''],
         FieldValue = StringValue string_type ''a''\<rparr>]) None
     = Inr (False, [''Code'' \<mapsto> FailRegexp])"
  using C7_key_regexp_wins[of None "''validation''"
      "\<lparr>Name = ''Code'', Kind = String,
       Tag = [''validation'' \<mapsto> ''regexp:a'', ''validation_regexp'' \<mapsto> ''b''],
       FieldValue = StringValue string_type ''a''\<rparr>" example_compile
      "FieldValidation_init\<lparr>regexp := Some (lit CHR ''b'')\<rparr>"]
  by (simp add: Validate_defs example_compile_def validateValue_defs flag_defs
      MatchString_def lit_def in_class_def Fail_defs)

subsection \<open>A struct passed by value\<close>

text \<open>
  C9. When \<open>Validate\<close> is given a struct and not a pointer to one, and some field is
  not skipped and has no entry in \<open>OverwriteFieldValues\<close>, the call panics
  (\<^verbatim>\<open>v.Elem()\<close> on line 116, unless an earlier field has panicked already). So the
  call returns only when every field that is not skipped has such an entry.
\<close>

theorem C9_struct_by_value_panics:
  assumes "field \<in> set fs" and "\<not> skipped options field"
    and "case options of None \<Rightarrow> True | Some opts \<Rightarrow> OverwriteFieldValues opts (Name field) = None"
  shows "\<exists>p. Validate compile (StructValue fs) options = Inl p"
proof -
  from assms(3) have "field_value (StructValue fs) options field = Inl ElemOfNonPointer"
    by (auto simp add: field_value_def Elem_FieldByName_def isKeyInMap_def split: option.splits)
  then have "isl (Validate_loop compile (StructValue fs) options (tagName_of options) fs
      (True, Map.empty))"
    using assms(1,2) by (intro Validate_loop_panics[of field]) simp_all
  then show ?thesis
    by (auto simp add: Validate_def struct_fields_def isl_def)
qed

theorem C9_struct_by_value_panics_witness:
  "Validate example_compile (StructValue [string_field ''FirstName'' ''req'' ''Johnny'']) None
     = Inl ElemOfNonPointer
   \<and> Validate example_compile (StructValue [string_field ''FirstName'' ''req'' ''Johnny''])
       (Some \<lparr>RestrictFields = Map.empty, OverwriteFieldTags = Map.empty,
              OverwriteTagName = [], ValidateWhenSuffix = False,
              OverwriteFieldValues = [''FirstName'' \<mapsto> StringValue string_type ''Jim'']\<rparr>)
     = Inr (True, Map.empty)"
  using C9_struct_by_value_panics[of "string_field ''FirstName'' ''req'' ''Johnny''"
      "[string_field ''FirstName'' ''req'' ''Johnny'']" None example_compile]
  by (simp add: Validate_defs validateValue_defs flag_defs Fail_defs)

subsection \<open>Named types\<close>

text \<open>
  C10, as amended. A value whose type name is neither \<^verbatim>\<open>string\<close> nor begins with
  \<^verbatim>\<open>int\<close> (as for \<^verbatim>\<open>type Country string\<close>) passes \<open>validateValue\<close> under every
  validation; a field of string or integer kind that holds such a value passes the
  kind filter, and a struct of that one field is valid whenever the validation of the
  field is built without a panic.
\<close>

theorem C10_other_type_name_always_passes:
  assumes "Value_Type_Name v = Inr n" and "n \<noteq> ''string''" and "\<not> prefix ''int'' n"
  shows "validateValue v validation = Inr (True, 0)
     \<and> (isNotInt (Kind field) \<or> isNotString (Kind field) \<longrightarrow> FieldValue field = v \<longrightarrow>
          field_validation compile None ''validation'' field = Inr validation \<longrightarrow>
          Validate compile (StructPointer [field]) None = Inr (True, Map.empty))"
proof -
  have 1: "validateValue v w = Inr (True, 0)" for w
    using assms by (rule validateValue_other_name)
  then show ?thesis
    by (simp add: Validate_def struct_fields_def tagName_of_def skipped_def restricted_out_def
        field_value_def Elem_FieldByName_def FieldByName_def)
qed

theorem C10_other_type_name_always_passes_witness:
  "validateValue (StringValue \<lparr>TypeName = ''Country'', TypeString = ''main.Country''\<rparr> [])
      (FieldValidation_init\<lparr>lenMin := 2, flags := Required\<rparr>) = Inr (True, 0)
   \<and> Validate example_compile
      (StructPointer [\<lparr>Name = ''Country'', Kind = String,
         Tag = [''validation'' \<mapsto> ''req lenmin:2'', ''validation_regexp'' \<mapsto> ''^[A-Z][A-Z]$''],
         FieldValue = StringValue \<lparr>TypeName = ''Country'', TypeString = ''main.Country''\<rparr> []\<rparr>]) None
     = Inr (True, Map.empty)"
  using C10_other_type_name_always_passes[of
      "StringValue \<lparr>TypeName = ''Country'', TypeString = ''main.Country''\<rparr> []" "''Country''"
      "FieldValidation_init\<lparr>lenMin := 2, flags := Required\<rparr>"
      "\<lparr>Name = ''Country'', Kind = String,
         Tag = [''validation'' \<mapsto> ''req lenmin:2'', ''validation_regexp'' \<mapsto> ''^[A-Z][A-Z]$''],
         FieldValue = StringValue \<lparr>TypeName = ''Country'', TypeString = ''main.Country''\<rparr> []\<rparr>"
      example_compile]
  by (simp add: Validate_defs validateValue_defs flag_defs Fail_defs example_compile_def)

text \<open>
  The claim C10 as it stands (every named type of string or integer kind always
  passes) fails for a named type whose name begins with \<^verbatim>\<open>int\<close>: with
  \<^verbatim>\<open>type integer int64\<close>, a field \<^verbatim>\<open>Level integer `validation:"valmin:5"`\<close> holding 0
  fails with \<open>FailValMin\<close>.
\<close>

theorem C10_counterexample:
  "validateValue (IntValue \<lparr>TypeName = ''integer'', TypeString = ''main.integer''\<rparr> 0)
      (FieldValidation_init\<lparr>valMin := 5\<rparr>) = Inr (False, FailValMin)
   \<and> Validate example_compile
      (StructPointer [\<lparr>Name = ''Level'', Kind = Int64, Tag = [''validation'' \<mapsto> ''valmin:5''],
         FieldValue = IntValue \<lparr>TypeName = ''integer'', TypeString = ''main.integer''\<rparr> 0\<rparr>]) None
     = Inr (False, [''Level'' \<mapsto> FailValMin])"
  by (simp add: Validate_defs validateValue_defs flag_defs Fail_defs)

end
